theory Spec2Isabelle
  imports Complex_Main "HOL-Library.Char_ord" "HOL-Library.List_Lexorder"
begin

section \<open>Tabular data as the scripts see it\<close>

text \<open>
  Both scripts work on a pandas data frame read from a CSV file. A frame is modelled
  column-wise, as the code uses it: an ordered list of named columns, each with the dtype
  pandas gave it and one cell per row. Floating-point numbers are idealised as reals.
  Frames built by pandas have pairwise distinct column names and columns of one common
  length; \<open>wf_frame\<close> states this where a theorem needs it.
\<close>

datatype dtype = Int64 | Float64 | Int32 | Object | Boolean

datatype cell = NaN | IntV int | FloatV real | StrV string | BoolV bool

record column =
  dtype_of :: dtype
  cells :: "cell list"

type_synonym frame = "(string \<times> column) list"

datatype error =
    ValueError string
  | TypeError string
  | FileNotFoundError string
  | MlflowException string

definition columns :: "frame \<Rightarrow> string list" where
  "columns df = map fst df"

definition lookup :: "frame \<Rightarrow> string \<Rightarrow> column option" where
  "lookup df name = map_of df name"

definition nrows :: "frame \<Rightarrow> nat" where
  "nrows df = (case df of [] \<Rightarrow> 0 | (_, c) # _ \<Rightarrow> length (cells c))"

definition wf_frame :: "frame \<Rightarrow> bool" where
  "wf_frame df = (distinct (columns df) \<and> list_all (\<lambda>(_, c). length (cells c) = nrows df) df)"

text \<open>\<open>df[name] = col\<close>: an existing column is replaced where it stands, a new one is
  appended as the last column.\<close>

fun set_column :: "string \<Rightarrow> column \<Rightarrow> frame \<Rightarrow> frame" where
  "set_column name col [] = [(name, col)]"
| "set_column name col ((m, d) # rest) =
     (if m = name then (name, col) # rest else (m, d) # set_column name col rest)"

text \<open>\<open>df.drop(columns=[name])\<close>, used by the code only when the column is present.\<close>

definition drop_column :: "string \<Rightarrow> frame \<Rightarrow> frame" where
  "drop_column name df = filter (\<lambda>(m, _). m \<noteq> name) df"

text \<open>\<open>df.select_dtypes(include=...).columns\<close>: the names of the columns whose dtype is
  one of the listed ones, in frame order.\<close>

definition select_dtypes :: "dtype list \<Rightarrow> frame \<Rightarrow> string list" where
  "select_dtypes include df = map fst (filter (\<lambda>(_, c). dtype_of c \<in> set include) df)"

section \<open>Date expansion: lines 23 to 28 of the training script\<close>

text \<open>
  \<open>pd.to_datetime(..., errors="coerce", format="mixed")\<close> converts each cell on its own;
  a cell it cannot convert becomes NaT. The conversion of one cell is the library's and is
  a parameter \<open>parse\<close> of the model (\<open>None\<close> is NaT). Only the calendar date of a
  timestamp is used by the code.
\<close>

record date =
  year :: int
  month :: int
  day :: int

definition to_datetime :: "(cell \<Rightarrow> date option) \<Rightarrow> column \<Rightarrow> date option list" where
  "to_datetime parse col = map parse (cells col)"

text \<open>
  \<open>dt.dt.year\<close> and its siblings: with pandas 2 (which \<open>format="mixed"\<close> requires) the
  accessor yields an \<open>int32\<close> column when no timestamp is NaT, and a \<open>float64\<close> column
  with NaN at the NaT rows otherwise.
\<close>

definition dt_field :: "(date \<Rightarrow> int) \<Rightarrow> date option list \<Rightarrow> column" where
  "dt_field f dt =
     (if list_all (\<lambda>d. d \<noteq> None) dt
      then \<lparr>dtype_of = Int32,
            cells = map (\<lambda>d. case d of None \<Rightarrow> NaN | Some x \<Rightarrow> IntV (f x)) dt\<rparr>
      else \<lparr>dtype_of = Float64,
            cells = map (\<lambda>d. case d of None \<Rightarrow> NaN | Some x \<Rightarrow> FloatV (real_of_int (f x))) dt\<rparr>)"

definition date_features :: "(cell \<Rightarrow> date option) \<Rightarrow> bool \<Rightarrow> frame \<Rightarrow> frame" where
  "date_features parse use_date_features df =
     (if use_date_features then
        (case lookup df ''crash_date'' of
           Some col \<Rightarrow>
             (let dt = to_datetime parse col;
                  df1 = set_column ''year'' (dt_field year dt) df;
                  df2 = set_column ''month'' (dt_field month dt) df1;
                  df3 = set_column ''day'' (dt_field day dt) df2
              in drop_column ''crash_date'' df3)
         | None \<Rightarrow> df)
      else df)"

section \<open>The preprocessing transforms\<close>

text \<open>Failures of a step are values; \<open>collect\<close> runs a list of steps and stops at the
  first failure, as the exception would.\<close>

fun collect :: "(error + 'a) list \<Rightarrow> error + 'a list" where
  "collect [] = Inr []"
| "collect (x # xs) =
     (case x of
        Inl e \<Rightarrow> Inl e
      | Inr v \<Rightarrow> (case collect xs of Inl e \<Rightarrow> Inl e | Inr vs \<Rightarrow> Inr (v # vs)))"

subsection \<open>Numeric columns: median imputation, then standard scaling\<close>

text \<open>Conversion of a cell to a floating-point number, as the numeric block does on
  entry; a missing cell stays missing, text cannot be converted.\<close>

fun to_float :: "cell \<Rightarrow> error + real option" where
  "to_float NaN = Inr None"
| "to_float (IntV i) = Inr (Some (real_of_int i))"
| "to_float (FloatV r) = Inr (Some r)"
| "to_float (BoolV b) = Inr (Some (if b then 1 else 0))"
| "to_float (StrV s) = Inl (ValueError (''could not convert string to float: '' @ s))"

definition median :: "real list \<Rightarrow> real" where
  "median xs =
     (let s = sort xs; n = length s
      in if odd n then s ! (n div 2) else (s ! (n div 2 - 1) + s ! (n div 2)) / 2)"

definition mean :: "real list \<Rightarrow> real" where
  "mean xs = sum_list xs / real (length xs)"

definition variance :: "real list \<Rightarrow> real" where
  "variance xs = mean (map (\<lambda>x. (x - mean xs)\<^sup>2) xs)"

record num_stat =
  st_median :: real
  st_mean :: real
  st_scale :: real

definition impute :: "'a \<Rightarrow> 'a option \<Rightarrow> 'a" where
  "impute fill v = (case v of None \<Rightarrow> fill | Some x \<Rightarrow> x)"

text \<open>Fitting one numeric column. A column with no value at all gets no statistics and
  is left out of the features (the imputer discards it); a constant column is scaled by 1.\<close>

definition num_fit :: "column \<Rightarrow> error + num_stat option" where
  "num_fit col =
     (case collect (map to_float (cells col)) of
        Inl e \<Rightarrow> Inl e
      | Inr vs \<Rightarrow>
          (let present = List.map_filter (\<lambda>v. v) vs
           in if present = [] then Inr None
              else
                (let med = median present;
                     filled = map (impute med) vs;
                     sd = sqrt (variance filled)
                 in Inr (Some \<lparr>st_median = med, st_mean = mean filled,
                                st_scale = (if sd = 0 then 1 else sd)\<rparr>))))"

text \<open>The features one numeric column contributes, row by row: one scaled value, or
  nothing when the column was discarded at fit time.\<close>

definition num_transform :: "num_stat option \<Rightarrow> column \<Rightarrow> error + real list list" where
  "num_transform st col =
     (case collect (map to_float (cells col)) of
        Inl e \<Rightarrow> Inl e
      | Inr vs \<Rightarrow>
          (case st of
             None \<Rightarrow> Inr (map (\<lambda>_. []) vs)
           | Some s \<Rightarrow> Inr (map (\<lambda>v. [(impute (st_median s) v - st_mean s) / st_scale s]) vs)))"

subsection \<open>Categorical columns: most-frequent imputation, then one-hot encoding\<close>

fun cell_key :: "cell \<Rightarrow> string" where
  "cell_key (StrV s) = s"
| "cell_key (BoolV b) = (if b then ''True'' else ''False'')"
| "cell_key _ = []"

fun is_str :: "cell \<Rightarrow> bool" where
  "is_str (StrV _) = True"
| "is_str _ = False"

fun is_bool :: "cell \<Rightarrow> bool" where
  "is_bool (BoolV _) = True"
| "is_bool _ = False"

text \<open>The most frequent value; among equally frequent values the smallest one.\<close>

definition most_frequent :: "cell list \<Rightarrow> cell" where
  "most_frequent cs =
     (let m = fold max (map (count_list cs) cs) 0;
          cands = filter (\<lambda>c. count_list cs c = m) (remdups cs)
      in case sort_key cell_key cands of [] \<Rightarrow> NaN | c # _ \<Rightarrow> c)"

record cat_stat =
  fill_value :: cell
  categories :: "cell list"

text \<open>Fitting one categorical column: the mode of the cells that are present, and the
  sorted set of values after imputation as the vocabulary. The encoder refuses a column
  that mixes text with other values. A column with no value at all is discarded.\<close>

definition cat_fit :: "column \<Rightarrow> error + cat_stat option" where
  "cat_fit col =
     (let present = filter (\<lambda>c. c \<noteq> NaN) (cells col)
      in if present = [] then Inr None
         else if \<not> (list_all is_str present \<or> list_all is_bool present)
         then Inl (TypeError ''Encoders require their input argument must be uniformly strings or numbers.'')
         else Inr (Some \<lparr>fill_value = most_frequent present,
                          categories = sort_key cell_key (remdups present)\<rparr>))"

text \<open>\<open>OneHotEncoder(handle_unknown="ignore")\<close>: one indicator per vocabulary entry; a
  value outside the vocabulary matches none of them.\<close>

definition onehot :: "cell list \<Rightarrow> cell \<Rightarrow> real list" where
  "onehot cats c = map (\<lambda>v. if c = v then 1 else 0) cats"

definition cat_transform :: "cat_stat option \<Rightarrow> column \<Rightarrow> real list list" where
  "cat_transform st col =
     (case st of
        None \<Rightarrow> map (\<lambda>_. []) (cells col)
      | Some s \<Rightarrow>
          map (\<lambda>c. onehot (categories s) (if c = NaN then fill_value s else c)) (cells col))"

subsection \<open>The column transformer\<close>

text \<open>
  \<open>ColumnTransformer\<close> with the two blocks \<open>num\<close> and \<open>cat\<close> of the training script;
  every other column is dropped. Fitted on a frame, it remembers the column names of its
  blocks and selects them by name when it transforms another frame.
\<close>

record column_transformer =
  num_fitted :: "(string \<times> num_stat option) list"
  cat_fitted :: "(string \<times> cat_stat option) list"

definition feature_names_in :: "column_transformer \<Rightarrow> string list" where
  "feature_names_in ct = map fst (num_fitted ct) @ map fst (cat_fitted ct)"

fun join :: "string list \<Rightarrow> string" where
  "join [] = []"
| "join [n] = n"
| "join (n # ns) = n @ '', '' @ join ns"

definition fit_columns ::
  "(column \<Rightarrow> error + 's) \<Rightarrow> string list \<Rightarrow> frame \<Rightarrow> error + (string \<times> 's) list" where
  "fit_columns f names df =
     collect (map (\<lambda>n. case lookup df n of
                          None \<Rightarrow> Inl (ValueError (''columns are missing: '' @ n))
                        | Some c \<Rightarrow> (case f c of Inl e \<Rightarrow> Inl e | Inr s \<Rightarrow> Inr (n, s))) names)"

definition no_features :: "(string \<times> 's option) list \<Rightarrow> bool" where
  "no_features fitted = (fitted \<noteq> [] \<and> list_all (\<lambda>(_, st). st = None) fitted)"

definition all_bool :: "string list \<Rightarrow> frame \<Rightarrow> bool" where
  "all_bool names df =
     (names \<noteq> [] \<and> list_all (\<lambda>n. map_option dtype_of (lookup df n) = Some Boolean) names)"

text \<open>Fitting. A block whose columns are all discarded leaves its second step without
  features, and the most-frequent imputer refuses a block that is boolean throughout;
  both raise.\<close>

definition ct_fit :: "string list \<Rightarrow> string list \<Rightarrow> frame \<Rightarrow> error + column_transformer" where
  "ct_fit num_cols cat_cols df =
     (case fit_columns num_fit num_cols df of
        Inl e \<Rightarrow> Inl e
      | Inr ns \<Rightarrow>
          if no_features ns then Inl (ValueError ''Found array with 0 feature(s)'')
          else if all_bool cat_cols df
          then Inl (ValueError ''SimpleImputer does not support data with dtype bool'')
          else
            (case fit_columns cat_fit cat_cols df of
               Inl e \<Rightarrow> Inl e
             | Inr cs \<Rightarrow>
                 if no_features cs then Inl (ValueError ''Found array with 0 feature(s)'')
                 else Inr \<lparr>num_fitted = ns, cat_fitted = cs\<rparr>))"

definition missing_columns :: "column_transformer \<Rightarrow> frame \<Rightarrow> string list" where
  "missing_columns ct df = filter (\<lambda>n. n \<notin> set (columns df)) (feature_names_in ct)"

definition block ::
  "('s \<Rightarrow> column \<Rightarrow> error + real list list) \<Rightarrow> (string \<times> 's) list \<Rightarrow> frame
     \<Rightarrow> error + real list list list" where
  "block f fitted df =
     collect (map (\<lambda>(n, st). case lookup df n of
                                None \<Rightarrow> Inl (ValueError (''columns are missing: '' @ n))
                              | Some c \<Rightarrow> f st c) fitted)"

text \<open>Row \<open>i\<close> of the result takes entry \<open>i\<close> of every block.\<close>

fun rows_of :: "nat \<Rightarrow> 'a list list \<Rightarrow> 'a list list" where
  "rows_of 0 blocks = []"
| "rows_of (Suc n) blocks = map hd blocks # rows_of n (map tl blocks)"

text \<open>Transforming a frame: first the check that every column seen by a block at fit
  time is present, then the numeric block, then the categorical block, stacked side by
  side (numeric features first).\<close>

definition ct_transform :: "column_transformer \<Rightarrow> frame \<Rightarrow> error + real list list" where
  "ct_transform ct df =
     (if missing_columns ct df \<noteq> []
      then Inl (ValueError (''columns are missing: '' @ join (missing_columns ct df)))
      else if nrows df = 0 then Inl (ValueError ''Found array with 0 sample(s)'')
      else
        (case block num_transform (num_fitted ct) df of
           Inl e \<Rightarrow> Inl e
         | Inr nb \<Rightarrow>
             (case block (\<lambda>st c. Inr (cat_transform st c)) (cat_fitted ct) df of
                Inl e \<Rightarrow> Inl e
              | Inr cb \<Rightarrow> Inr (map concat (rows_of (nrows df) (nb @ cb))))))"

section \<open>The isolation forest\<close>

text \<open>
  The forest is grown by the library from a random generator, the number of trees and the
  feature matrix; what it has learnt is its raw score function \<open>score_samples\<close>. Growing
  is a parameter \<open>grow\<close> of the model. The script passes \<open>random_state=42\<close>, so the
  library draws from a fresh generator seeded with 42 and not from the process-wide one;
  \<open>contamination="auto"\<close> fixes the offset at \<open>-0.5\<close>.
\<close>

datatype rng = RandomState nat nat

type_synonym learner = "rng \<Rightarrow> nat \<Rightarrow> real list list \<Rightarrow> real list \<Rightarrow> real"

record iforest =
  score_samples :: "real list \<Rightarrow> real"
  offset :: real

definition check_random_state :: "nat option \<Rightarrow> rng \<Rightarrow> rng" where
  "check_random_state seed global =
     (case seed of None \<Rightarrow> global | Some n \<Rightarrow> RandomState n 0)"

definition iforest_fit :: "learner \<Rightarrow> rng \<Rightarrow> real list list \<Rightarrow> error + iforest" where
  "iforest_fit grow global X =
     (case X of
        [] \<Rightarrow> Inl (ValueError ''Found array with 0 sample(s)'')
      | x # _ \<Rightarrow>
          if x = [] then Inl (ValueError ''Found array with 0 feature(s)'')
          else Inr \<lparr>score_samples = grow (check_random_state (Some 42) global) 200 X,
                    offset = - (1 / 2)\<rparr>)"

definition decision_function :: "iforest \<Rightarrow> real list list \<Rightarrow> real list" where
  "decision_function f X = map (\<lambda>x. score_samples f x - offset f) X"

definition iforest_predict :: "iforest \<Rightarrow> real list list \<Rightarrow> int list" where
  "iforest_predict f X = map (\<lambda>d. if d < 0 then - 1 else 1) (decision_function f X)"

section \<open>The pipeline\<close>

record pipeline =
  preprocess :: column_transformer
  model :: iforest

definition pipe_fit ::
  "learner \<Rightarrow> rng \<Rightarrow> string list \<Rightarrow> string list \<Rightarrow> frame \<Rightarrow> error + pipeline" where
  "pipe_fit grow global num_cols cat_cols df =
     (case ct_fit num_cols cat_cols df of
        Inl e \<Rightarrow> Inl e
      | Inr ct \<Rightarrow>
          (case ct_transform ct df of
             Inl e \<Rightarrow> Inl e
           | Inr X \<Rightarrow>
               (case iforest_fit grow global X of
                  Inl e \<Rightarrow> Inl e
                | Inr f \<Rightarrow> Inr \<lparr>preprocess = ct, model = f\<rparr>)))"

definition pipe_predict :: "pipeline \<Rightarrow> frame \<Rightarrow> error + int list" where
  "pipe_predict pipe df =
     (case ct_transform (preprocess pipe) df of
        Inl e \<Rightarrow> Inl e
      | Inr X \<Rightarrow> Inr (iforest_predict (model pipe) X))"

section \<open>The run registry\<close>

record run =
  run_id :: string
  start_time :: int

record registry =
  experiments :: "string \<rightharpoonup> run list"
  artifacts :: "string \<rightharpoonup> pipeline"
  metrics :: "(string \<times> string \<times> real) list"

definition get_experiment_by_name :: "registry \<Rightarrow> string \<Rightarrow> run list option" where
  "get_experiment_by_name reg name = experiments reg name"

text \<open>\<open>search_runs(order_by=["start_time DESC"], max_results=1)\<close>.\<close>

definition search_runs :: "run list \<Rightarrow> run list" where
  "search_runs runs = take 1 (sort_key (\<lambda>r. - start_time r) runs)"

definition set_experiment :: "string \<Rightarrow> registry \<Rightarrow> registry" where
  "set_experiment name reg =
     (case experiments reg name of
        None \<Rightarrow> reg\<lparr>experiments := (experiments reg)(name \<mapsto> [])\<rparr>
      | Some _ \<Rightarrow> reg)"

definition start_run :: "string \<Rightarrow> run \<Rightarrow> registry \<Rightarrow> registry" where
  "start_run name r reg =
     reg\<lparr>experiments := (experiments reg)(name \<mapsto> (case experiments reg name of
                                                     None \<Rightarrow> [r] | Some rs \<Rightarrow> rs @ [r]))\<rparr>"

definition log_metric :: "string \<Rightarrow> string \<Rightarrow> real \<Rightarrow> registry \<Rightarrow> registry" where
  "log_metric rid key v reg = reg\<lparr>metrics := metrics reg @ [(rid, key, v)]\<rparr>"

definition model_uri_of :: "string \<Rightarrow> string" where
  "model_uri_of rid = ''runs:/'' @ rid @ ''/model''"

definition log_model :: "string \<Rightarrow> pipeline \<Rightarrow> registry \<Rightarrow> registry" where
  "log_model rid pipe reg = reg\<lparr>artifacts := (artifacts reg)(model_uri_of rid \<mapsto> pipe)\<rparr>"

definition load_model :: "registry \<Rightarrow> string \<Rightarrow> error + pipeline" where
  "load_model reg uri =
     (case artifacts reg uri of
        None \<Rightarrow> Inl (MlflowException (''no model at '' @ uri))
      | Some pipe \<Rightarrow> Inr pipe)"

text \<open>\<open>pd.read_csv\<close>: the file's content is given as the frame pandas reads from it;
  \<open>None\<close> is a file that cannot be read, and a file without columns is refused.\<close>

definition read_csv :: "frame option \<Rightarrow> error + frame" where
  "read_csv data =
     (case data of
        None \<Rightarrow> Inl (FileNotFoundError ''No such file or directory'')
      | Some [] \<Rightarrow> Inl (ValueError ''No columns to parse from file'')
      | Some df \<Rightarrow> Inr df)"

section \<open>The training script\<close>

text \<open>What the environment supplies to one run of the training script: the state of the
  process-wide random generator, and the identifier and start time the registry gives
  the run it opens.\<close>

record environment =
  global_rng :: rng
  fresh_run :: run

record train_output =
  out_pipe :: pipeline
  out_preds :: "int list"
  out_scores :: "real list"

definition anomaly_rate :: "int list \<Rightarrow> real" where
  "anomaly_rate preds = real (length (filter (\<lambda>p. p = - 1) preds)) / real (length preds)"

text \<open>\<open>main\<close> of the training script. The run is opened before the pipeline is fitted,
  so a failure inside the \<open>with\<close> block leaves the run in the registry without a model.\<close>

definition train_main ::
  "learner \<Rightarrow> (cell \<Rightarrow> date option) \<Rightarrow> environment \<Rightarrow> bool \<Rightarrow> frame option \<Rightarrow> registry
     \<Rightarrow> registry \<times> (error + train_output)" where
  "train_main grow parse env use_date_features data reg =
     (case read_csv data of
        Inl e \<Rightarrow> (reg, Inl e)
      | Inr df0 \<Rightarrow>
          (let df = date_features parse use_date_features df0;
               num_cols = select_dtypes [Int64, Float64] df;
               cat_cols = select_dtypes [Object, Boolean] df;
               reg1 = start_run ''traffic_anomaly_detection'' (fresh_run env)
                        (set_experiment ''traffic_anomaly_detection'' reg)
           in case pipe_fit grow (global_rng env) num_cols cat_cols df of
                Inl e \<Rightarrow> (reg1, Inl e)
              | Inr pipe \<Rightarrow>
                  (case pipe_predict pipe df of
                     Inl e \<Rightarrow> (reg1, Inl e)
                   | Inr preds \<Rightarrow>
                       (case ct_transform (preprocess pipe) df of
                          Inl e \<Rightarrow> (reg1, Inl e)
                        | Inr X \<Rightarrow>
                            (let scores = decision_function (model pipe) X;
                                 rid = run_id (fresh_run env);
                                 reg2 = log_metric rid ''anomaly_rate'' (anomaly_rate preds) reg1;
                                 reg3 = log_model rid pipe reg2
                             in (reg3, Inr \<lparr>out_pipe = pipe, out_preds = preds,
                                             out_scores = scores\<rparr>))))))"

section \<open>The scoring script\<close>

text \<open>Lines 106 to 121: the sentinel \<open>latest\<close> is replaced by the model of the run the
  registry lists first when the experiment's runs are ordered by start time, latest first.\<close>

definition resolve_model_uri :: "registry \<Rightarrow> string \<Rightarrow> error + string" where
  "resolve_model_uri reg model_uri =
     (if model_uri = ''latest'' then
        (case get_experiment_by_name reg ''traffic_anomaly_detection'' of
           None \<Rightarrow> Inl (ValueError ''Experiment 'traffic_anomaly_detection' not found'')
         | Some runs \<Rightarrow>
             (case search_runs runs of
                [] \<Rightarrow> Inl (ValueError ''No runs found in experiment'')
              | r # _ \<Rightarrow> Inr (model_uri_of (run_id r))))
      else Inr model_uri)"

text \<open>\<open>main\<close> of the scoring script up to \<open>df.to_csv\<close>: the result is the frame written
  to the output file, or the exception that ended the run before anything was written.
  The charts drawn afterwards are not part of the model.\<close>

definition score_main :: "string \<Rightarrow> frame option \<Rightarrow> registry \<Rightarrow> error + frame" where
  "score_main model_uri data reg =
     (case resolve_model_uri reg model_uri of
        Inl e \<Rightarrow> Inl e
      | Inr uri \<Rightarrow>
          (case read_csv data of
             Inl e \<Rightarrow> Inl e
           | Inr df \<Rightarrow>
               (case load_model reg uri of
                  Inl e \<Rightarrow> Inl e
                | Inr pipe \<Rightarrow>
                    (case pipe_predict pipe df of
                       Inl e \<Rightarrow> Inl e
                     | Inr preds \<Rightarrow>
                         (case ct_transform (preprocess pipe) df of
                            Inl e \<Rightarrow> Inl e
                          | Inr X \<Rightarrow>
                              (let scores = decision_function (model pipe) X;
                                   df1 = set_column ''anomaly_pred''
                                           \<lparr>dtype_of = Int64, cells = map IntV preds\<rparr> df;
                                   df2 = set_column ''anomaly_score''
                                           \<lparr>dtype_of = Float64, cells = map FloatV scores\<rparr> df1
                               in Inr df2))))))"

section \<open>Example data\<close>

text \<open>A registry whose experiment holds three runs, stored with the latest one in the
  middle, and the same runs stored in another order.\<close>

definition run_a :: run where
  "run_a = \<lparr>run_id = ''a'', start_time = 10\<rparr>"

definition run_b :: run where
  "run_b = \<lparr>run_id = ''b'', start_time = 30\<rparr>"

definition run_c :: run where
  "run_c = \<lparr>run_id = ''c'', start_time = 20\<rparr>"

definition registry_of :: "run list option \<Rightarrow> registry" where
  "registry_of rs =
     \<lparr>experiments = (\<lambda>name. if name = ''traffic_anomaly_detection'' then rs else None),
      artifacts = Map.empty, metrics = []\<rparr>"

text \<open>One conversion of cells to dates, for the examples: it reads text of the form
  \<open>YYYY-MM-DD\<close> (day up to 28) as pandas does and answers NaT on every other cell, a
  missing cell included.\<close>

definition digit :: "char \<Rightarrow> int option" where
  "digit c = (let n = (of_char c :: nat) in if 48 \<le> n \<and> n \<le> 57 then Some (int n - 48) else None)"

fun digits :: "int \<Rightarrow> string \<Rightarrow> int option" where
  "digits acc [] = Some acc"
| "digits acc (c # cs) = (case digit c of None \<Rightarrow> None | Some d \<Rightarrow> digits (10 * acc + d) cs)"

definition iso_date :: "cell \<Rightarrow> date option" where
  "iso_date c =
     (case c of
        StrV s \<Rightarrow>
          (if length s = 10 \<and> s ! 4 = CHR ''-'' \<and> s ! 7 = CHR ''-'' then
             (case (digits 0 (take 4 s), digits 0 (take 2 (drop 5 s)), digits 0 (drop 8 s)) of
                (Some y, Some m, Some d) \<Rightarrow>
                  if 1 \<le> m \<and> m \<le> 12 \<and> 1 \<le> d \<and> d \<le> 28
                  then Some \<lparr>year = y, month = m, day = d\<rparr> else None
              | _ \<Rightarrow> None)
           else None)
      | _ \<Rightarrow> None)"

text \<open>Two small accident files. In the first the date of the second record is missing;
  in the second every date can be read.\<close>

definition accidents :: frame where
  "accidents =
     [(''crash_date'', \<lparr>dtype_of = Object, cells = [StrV ''2020-01-15'', NaN]\<rparr>),
      (''speed'', \<lparr>dtype_of = Int64, cells = [IntV 30, IntV 50]\<rparr>),
      (''weather'', \<lparr>dtype_of = Object, cells = [StrV ''rain'', StrV ''clear'']\<rparr>)]"

definition accidents_dated :: frame where
  "accidents_dated =
     [(''crash_date'', \<lparr>dtype_of = Object, cells = [StrV ''2020-01-15'', StrV ''2021-03-02'']\<rparr>),
      (''speed'', \<lparr>dtype_of = Int64, cells = [IntV 30, IntV 50]\<rparr>),
      (''weather'', \<lparr>dtype_of = Object, cells = [StrV ''rain'', StrV ''clear'']\<rparr>)]"

text \<open>A stand-in for a grown forest, for the examples: it scores a row by how far its
  first feature lies from the mean, so that the decision value is negative exactly when
  the first feature is more than one standard deviation away. As a learner it ignores the
  generator and the data.\<close>

definition example_forest :: iforest where
  "example_forest =
     \<lparr>score_samples = (\<lambda>x. case x of [] \<Rightarrow> - (1 / 2) | v # _ \<Rightarrow> - (1 / 2) + (1 - \<bar>v\<bar>) / 4),
      offset = - (1 / 2)\<rparr>"

definition example_grow :: learner where
  "example_grow g n X = score_samples example_forest"

text \<open>A fitted pipeline over one numeric and one categorical column, and a registry that
  holds it as the model of its only run.\<close>

definition example_pipe :: pipeline where
  "example_pipe =
     \<lparr>preprocess =
        \<lparr>num_fitted = [(''speed'', Some \<lparr>st_median = 40, st_mean = 40, st_scale = 10\<rparr>)],
         cat_fitted = [(''weather'', Some \<lparr>fill_value = StrV ''clear'',
                                         categories = [StrV ''clear'', StrV ''rain'']\<rparr>)]\<rparr>,
      model = example_forest\<rparr>"

definition example_registry :: registry where
  "example_registry =
     \<lparr>experiments = (\<lambda>name. if name = ''traffic_anomaly_detection'' then Some [run_a] else None),
      artifacts = (\<lambda>uri. if uri = ''runs:/a/model'' then Some example_pipe else None),
      metrics = []\<rparr>"

text \<open>Files to score: one within the vocabulary, one with the unseen value \<open>fog\<close>, one
  without the column \<open>weather\<close>, one with the columns in another order and an extra
  column, one that already has a column \<open>anomaly_score\<close>, and two batches of fast and of
  ordinary records.\<close>

definition batch_seen :: frame where
  "batch_seen =
     [(''speed'', \<lparr>dtype_of = Int64, cells = [IntV 30, IntV 70]\<rparr>),
      (''weather'', \<lparr>dtype_of = Object, cells = [StrV ''rain'', StrV ''clear'']\<rparr>)]"

definition batch_unseen :: frame where
  "batch_unseen =
     [(''speed'', \<lparr>dtype_of = Int64, cells = [IntV 30, IntV 70]\<rparr>),
      (''weather'', \<lparr>dtype_of = Object, cells = [StrV ''fog'', StrV ''clear'']\<rparr>)]"

definition batch_no_weather :: frame where
  "batch_no_weather = [(''speed'', \<lparr>dtype_of = Int64, cells = [IntV 30, IntV 70]\<rparr>)]"

definition batch_reordered :: frame where
  "batch_reordered =
     [(''weather'', \<lparr>dtype_of = Object, cells = [StrV ''rain'', StrV ''clear'']\<rparr>),
      (''note'', \<lparr>dtype_of = Object, cells = [StrV ''x'', NaN]\<rparr>),
      (''speed'', \<lparr>dtype_of = Int64, cells = [IntV 30, IntV 70]\<rparr>)]"

definition batch_rescored :: frame where
  "batch_rescored =
     [(''anomaly_score'', \<lparr>dtype_of = Float64, cells = [FloatV 9, FloatV 9]\<rparr>),
      (''speed'', \<lparr>dtype_of = Int64, cells = [IntV 30, IntV 70]\<rparr>),
      (''weather'', \<lparr>dtype_of = Object, cells = [StrV ''rain'', StrV ''clear'']\<rparr>)]"

definition batch_fast :: frame where
  "batch_fast =
     [(''speed'', \<lparr>dtype_of = Int64, cells = [IntV 70, IntV 80]\<rparr>),
      (''weather'', \<lparr>dtype_of = Object, cells = [StrV ''rain'', StrV ''clear'']\<rparr>)]"

definition batch_ordinary :: frame where
  "batch_ordinary =
     [(''speed'', \<lparr>dtype_of = Int64, cells = [IntV 35, IntV 45]\<rparr>),
      (''weather'', \<lparr>dtype_of = Object, cells = [StrV ''rain'', StrV ''clear'']\<rparr>)]"

text \<open>The relation between the labels and the scores of one batch that claim C5 is
  examined against: a score is among the \<open>k\<close> lowest of the batch when fewer than \<open>k\<close>
  scores lie below it, and the labels follow a fraction \<open>c\<close> when exactly the records
  among the lowest \<open>c\<close> times batch size carry the label \<open>-1\<close>.\<close>

definition among_lowest :: "real \<Rightarrow> real list \<Rightarrow> real \<Rightarrow> bool" where
  "among_lowest k scores s = (real (length (filter (\<lambda>t. t < s) scores)) < k)"

definition lowest_fraction_labels :: "real \<Rightarrow> real list \<Rightarrow> int list" where
  "lowest_fraction_labels c scores =
     map (\<lambda>s. if among_lowest (c * real (length scores)) scores s then - 1 else 1) scores"

section \<open>Properties\<close>

subsection \<open>Resolution of the latest run\<close>

lemma search_runs_latest:
  assumes "runs \<noteq> []"
  shows "\<exists>r. search_runs runs = [r] \<and> r \<in> set runs
           \<and> (\<forall>r' \<in> set runs. start_time r' \<le> start_time r)"
proof -
  let ?s = "sort_key (\<lambda>r. - start_time r) runs"
  have "?s \<noteq> []" using assms by (metis length_0_conv length_sort)
  then obtain r rest where s: "?s = r # rest" by (cases ?s) auto
  have srt: "sorted (map (\<lambda>r. - start_time r) ?s)" by simp
  have mem: "set ?s = set runs" by simp
  have "\<forall>r' \<in> set ?s. - start_time r \<le> - start_time r'"
    using srt unfolding s by auto
  then have "\<forall>r' \<in> set runs. start_time r' \<le> start_time r" using mem by auto
  moreover have "r \<in> set runs" using mem s by (metis list.set_intros(1))
  moreover have "search_runs runs = [r]" by (simp add: search_runs_def s)
  ultimately show ?thesis by blast
qed

lemma resolve_latest:
  assumes h1: "experiments rg ''traffic_anomaly_detection'' = Some rs" and h2: "rs \<noteq> []"
  shows "\<exists>r \<in> set rs. (\<forall>r' \<in> set rs. start_time r' \<le> start_time r) \<and>
          resolve_model_uri rg ''latest'' = Inr (model_uri_of (run_id r))"
proof -
  obtain r where r: "search_runs rs = [r]" "r \<in> set rs"
      "\<forall>r' \<in> set rs. start_time r' \<le> start_time r"
    using search_runs_latest[OF h2] by blast
  have "resolve_model_uri rg ''latest'' = Inr (model_uri_of (run_id r))"
    unfolding resolve_model_uri_def get_experiment_by_name_def by (simp add: h1 r(1))
  then show ?thesis using r(2,3) by blast
qed

lemma resolve_latest_order:
  assumes a1: "experiments reg ''traffic_anomaly_detection'' = Some runs" and a2: "runs \<noteq> []"
    and a3: "experiments reg' ''traffic_anomaly_detection'' = Some runs'"
    and a4: "set runs' = set runs" and a5: "inj_on start_time (set runs)"
  shows "resolve_model_uri reg' ''latest'' = resolve_model_uri reg ''latest''"
proof -
  have ne': "runs' \<noteq> []" using a2 a4 by auto
  obtain r where r: "r \<in> set runs" "\<forall>r' \<in> set runs. start_time r' \<le> start_time r"
      "resolve_model_uri reg ''latest'' = Inr (model_uri_of (run_id r))"
    using resolve_latest[OF a1 a2] by blast
  obtain q where q: "q \<in> set runs'" "\<forall>r' \<in> set runs'. start_time r' \<le> start_time q"
      "resolve_model_uri reg' ''latest'' = Inr (model_uri_of (run_id q))"
    using resolve_latest[OF a3 ne'] by blast
  have "start_time q \<le> start_time r" using r(2) q(1) a4 by simp
  moreover have "start_time r \<le> start_time q" using q(2) r(1) a4 by simp
  ultimately have "start_time q = start_time r" by simp
  then have "q = r" using a5 r(1) q(1) a4 by (simp add: inj_on_def)
  then show ?thesis using r(3) q(3) by simp
qed

lemma score_no_experiment:
  "experiments reg ''traffic_anomaly_detection'' = None \<Longrightarrow>
     score_main ''latest'' data reg
       = Inl (ValueError ''Experiment 'traffic_anomaly_detection' not found'')"
  by (simp add: score_main_def resolve_model_uri_def get_experiment_by_name_def)

lemma score_no_runs:
  "experiments reg ''traffic_anomaly_detection'' = Some [] \<Longrightarrow>
     score_main ''latest'' data reg = Inl (ValueError ''No runs found in experiment'')"
  by (simp add: score_main_def resolve_model_uri_def get_experiment_by_name_def search_runs_def)

lemma read_csv_errors:
  "read_csv data = Inl e \<Longrightarrow>
     e = FileNotFoundError ''No such file or directory''
     \<or> e = ValueError ''No columns to parse from file''"
  by (simp add: read_csv_def split: option.splits list.splits)

lemma collect_Inl: "collect xs = Inl e \<Longrightarrow> Inl e \<in> set xs"
  by (induction xs) (auto split: sum.splits)

lemma to_float_error:
  "to_float c = Inl e \<Longrightarrow> \<exists>s. e = ValueError (''could not convert string to float: '' @ s)"
  by (cases c) auto

lemma num_transform_error:
  assumes "num_transform st col = Inl e"
  shows "\<exists>s. e = ValueError (''could not convert string to float: '' @ s)"
proof -
  have "collect (map to_float (cells col)) = Inl e"
    using assms by (auto simp: num_transform_def split: sum.splits option.splits)
  then have "Inl e \<in> set (map to_float (cells col))" by (rule collect_Inl)
  then obtain c where "to_float c = Inl e" by auto
  then show ?thesis by (rule to_float_error)
qed

lemma block_error:
  assumes "block f fitted df = Inl e"
  shows "(\<exists>n. e = ValueError (''columns are missing: '' @ n)) \<or> (\<exists>st c. f st c = Inl e)"
proof -
  have "Inl e \<in> set (map (\<lambda>(n, st). case lookup df n of
                                None \<Rightarrow> Inl (ValueError (''columns are missing: '' @ n))
                              | Some c \<Rightarrow> f st c) fitted)"
    using assms unfolding block_def by (rule collect_Inl)
  then obtain n st where "(case lookup df n of
                                None \<Rightarrow> Inl (ValueError (''columns are missing: '' @ n))
                              | Some c \<Rightarrow> f st c) = Inl e" by auto
  then show ?thesis by (cases "lookup df n") auto
qed

lemma ct_transform_error:
  assumes "ct_transform ct df = Inl e"
  shows "(\<exists>n. e = ValueError (''columns are missing: '' @ n))
       \<or> e = ValueError ''Found array with 0 sample(s)''
       \<or> (\<exists>s. e = ValueError (''could not convert string to float: '' @ s))"
proof -
  consider (m) "missing_columns ct df \<noteq> []"
    | (z) "missing_columns ct df = []" "nrows df = 0"
    | (n) "missing_columns ct df = []" "nrows df \<noteq> 0" "block num_transform (num_fitted ct) df = Inl e"
    | (c) "missing_columns ct df = []" "nrows df \<noteq> 0"
          "block (\<lambda>st c. Inr (cat_transform st c)) (cat_fitted ct) df = Inl e"
    using assms by (auto simp: ct_transform_def split: if_splits sum.splits)
  then show ?thesis
  proof cases
    case m then show ?thesis using assms by (auto simp: ct_transform_def)
  next
    case z then show ?thesis using assms by (auto simp: ct_transform_def)
  next
    case n then show ?thesis using block_error[OF n(3)] num_transform_error by blast
  next
    case c then show ?thesis using block_error[OF c(3)] by blast
  qed
qed

text \<open>
  Claim C6. Asked for \<open>latest\<close>, the scoring script resolves to a run of the training
  experiment whose start time is maximal among the experiment's runs, whatever the order
  in which the registry stores them: when start times are pairwise different, two
  registries holding the same runs resolve to the same model. When the experiment does
  not exist, or exists without runs, scoring fails with a resolution error, and neither
  resolution error is an error that reading or transforming the input can raise.
\<close>

theorem latest_resolution:
  "(experiments reg ''traffic_anomaly_detection'' = Some runs \<and> runs \<noteq> [] \<longrightarrow>
      (\<exists>r \<in> set runs. (\<forall>r' \<in> set runs. start_time r' \<le> start_time r) \<and>
          resolve_model_uri reg ''latest'' = Inr (model_uri_of (run_id r))))
   \<and> (experiments reg ''traffic_anomaly_detection'' = Some runs \<and> runs \<noteq> [] \<and>
       experiments reg' ''traffic_anomaly_detection'' = Some runs' \<and>
       set runs' = set runs \<and> inj_on start_time (set runs) \<longrightarrow>
         resolve_model_uri reg' ''latest'' = resolve_model_uri reg ''latest'')
   \<and> (experiments reg ''traffic_anomaly_detection'' = None \<longrightarrow>
         score_main ''latest'' data reg
           = Inl (ValueError ''Experiment 'traffic_anomaly_detection' not found''))
   \<and> (experiments reg ''traffic_anomaly_detection'' = Some [] \<longrightarrow>
         score_main ''latest'' data reg = Inl (ValueError ''No runs found in experiment''))
   \<and> (read_csv data' = Inl e \<or> ct_transform ct df = Inl e \<longrightarrow>
         e \<noteq> ValueError ''Experiment 'traffic_anomaly_detection' not found''
         \<and> e \<noteq> ValueError ''No runs found in experiment'')"
proof (intro conjI impI)
  assume "experiments reg ''traffic_anomaly_detection'' = Some runs \<and> runs \<noteq> []"
  then show "\<exists>r \<in> set runs. (\<forall>r' \<in> set runs. start_time r' \<le> start_time r) \<and>
          resolve_model_uri reg ''latest'' = Inr (model_uri_of (run_id r))"
    using resolve_latest by blast
next
  assume "experiments reg ''traffic_anomaly_detection'' = Some runs \<and> runs \<noteq> [] \<and>
       experiments reg' ''traffic_anomaly_detection'' = Some runs' \<and>
       set runs' = set runs \<and> inj_on start_time (set runs)"
  then show "resolve_model_uri reg' ''latest'' = resolve_model_uri reg ''latest''"
    using resolve_latest_order by blast
next
  assume "experiments reg ''traffic_anomaly_detection'' = None"
  then show "score_main ''latest'' data reg
           = Inl (ValueError ''Experiment 'traffic_anomaly_detection' not found'')"
    by (rule score_no_experiment)
next
  assume "experiments reg ''traffic_anomaly_detection'' = Some []"
  then show "score_main ''latest'' data reg = Inl (ValueError ''No runs found in experiment'')"
    by (rule score_no_runs)
next
  assume a: "read_csv data' = Inl e \<or> ct_transform ct df = Inl e"
  show "e \<noteq> ValueError ''Experiment 'traffic_anomaly_detection' not found''"
    using a read_csv_errors[of data' e] ct_transform_error[of ct df e] by auto
next
  assume a: "read_csv data' = Inl e \<or> ct_transform ct df = Inl e"
  show "e \<noteq> ValueError ''No runs found in experiment''"
    using a read_csv_errors[of data' e] ct_transform_error[of ct df e] by auto
qed

theorem latest_resolution_witness:
  "resolve_model_uri (registry_of (Some [run_a, run_b, run_c])) ''latest'' = Inr ''runs:/b/model''
   \<and> resolve_model_uri (registry_of (Some [run_c, run_a, run_b])) ''latest'' = Inr ''runs:/b/model''
   \<and> score_main ''latest'' None (registry_of None)
        = Inl (ValueError ''Experiment 'traffic_anomaly_detection' not found'')
   \<and> score_main ''latest'' None (registry_of (Some []))
        = Inl (ValueError ''No runs found in experiment'')
   \<and> read_csv None = Inl (FileNotFoundError ''No such file or directory'')"
  using latest_resolution[of "registry_of (Some [run_a, run_b, run_c])" "[run_a, run_b, run_c]"
      "registry_of (Some [run_c, run_a, run_b])" "[run_c, run_a, run_b]" None None
      "FileNotFoundError ''No such file or directory''"]
    latest_resolution[of "registry_of None" "[]" "registry_of None" "[]" None None
      "FileNotFoundError ''No such file or directory''"]
    latest_resolution[of "registry_of (Some [])" "[]" "registry_of None" "[]" None None
      "FileNotFoundError ''No such file or directory''"]
  by (simp add: registry_of_def run_a_def run_b_def run_c_def model_uri_of_def read_csv_def
      resolve_model_uri_def get_experiment_by_name_def search_runs_def)

subsection \<open>Frames and date expansion\<close>

lemma lookup_set_column:
  "lookup (set_column n c df) m = (if m = n then Some c else lookup df m)"
  by (induction df) (auto simp: lookup_def)

lemma columns_set_column:
  "columns (set_column n c df) = (if n \<in> set (columns df) then columns df else columns df @ [n])"
  by (induction df) (force simp: columns_def)+

lemma lookup_drop_column:
  "lookup (drop_column n df) m = (if m = n then None else lookup df m)"
  by (induction df) (auto simp: lookup_def drop_column_def)

lemma columns_drop_column:
  "columns (drop_column n df) = filter (\<lambda>m. m \<noteq> n) (columns df)"
  by (induction df) (auto simp: columns_def drop_column_def)

lemma lookup_None_iff: "lookup df n = None \<longleftrightarrow> n \<notin> set (columns df)"
  by (simp add: lookup_def columns_def map_of_eq_None_iff)

lemma dt_field_numeric:
  "dtype_of (dt_field f dts) \<in> {Int32, Float64}
   \<and> map to_float (cells (dt_field f dts)) = map (\<lambda>d. Inr (map_option (\<lambda>x. real_of_int (f x)) d)) dts"
  by (auto simp: dt_field_def split: option.splits)

lemma date_features_off:
  "\<not> use_date_features \<or> ''crash_date'' \<notin> set (columns df) \<Longrightarrow>
     date_features parse use_date_features df = df"
  by (auto simp: date_features_def lookup_None_iff[symmetric] split: option.splits)

lemma date_features_on:
  assumes "lookup df ''crash_date'' = Some col"
  shows "date_features parse True df =
     drop_column ''crash_date''
       (set_column ''day'' (dt_field day (map parse (cells col)))
         (set_column ''month'' (dt_field month (map parse (cells col)))
           (set_column ''year'' (dt_field year (map parse (cells col))) df)))"
  using assms by (simp add: date_features_def to_datetime_def Let_def)

text \<open>
  Claim C8. When date features are enabled and the column \<open>crash_date\<close> is present, the
  training script converts the column cell by cell (a cell that cannot be converted is
  NaT), stores the year, month and day of the timestamps in the columns \<open>year\<close>,
  \<open>month\<close> and \<open>day\<close>, which are numeric (\<open>int32\<close>, or \<open>float64\<close> with a missing
  value at every NaT row), and drops \<open>crash_date\<close>; every other column is untouched, and
  where the three names are new the columns are appended in this order. When the flag is
  off or the column is absent the frame is unchanged.
\<close>

theorem date_expansion:
  "(use_date_features \<and> lookup df ''crash_date'' = Some col \<longrightarrow>
      ''crash_date'' \<notin> set (columns (date_features parse use_date_features df))
      \<and> lookup (date_features parse use_date_features df) ''year''
            = Some (dt_field year (map parse (cells col)))
      \<and> lookup (date_features parse use_date_features df) ''month''
            = Some (dt_field month (map parse (cells col)))
      \<and> lookup (date_features parse use_date_features df) ''day''
            = Some (dt_field day (map parse (cells col)))
      \<and> (\<forall>n. n \<notin> {''year'', ''month'', ''day'', ''crash_date''} \<longrightarrow>
            lookup (date_features parse use_date_features df) n = lookup df n)
      \<and> (''year'' \<notin> set (columns df) \<and> ''month'' \<notin> set (columns df)
           \<and> ''day'' \<notin> set (columns df) \<longrightarrow>
            columns (date_features parse use_date_features df)
              = filter (\<lambda>n. n \<noteq> ''crash_date'') (columns df) @ [''year'', ''month'', ''day'']))
   \<and> dtype_of (dt_field f dts) \<in> {Int32, Float64}
   \<and> map to_float (cells (dt_field f dts))
        = map (\<lambda>d. Inr (map_option (\<lambda>x. real_of_int (f x)) d)) dts
   \<and> (\<not> use_date_features \<or> ''crash_date'' \<notin> set (columns df) \<longrightarrow>
        date_features parse use_date_features df = df)"
proof -
  have on: "''crash_date'' \<notin> set (columns (date_features parse True df))
      \<and> lookup (date_features parse True df) ''year'' = Some (dt_field year (map parse (cells col)))
      \<and> lookup (date_features parse True df) ''month'' = Some (dt_field month (map parse (cells col)))
      \<and> lookup (date_features parse True df) ''day'' = Some (dt_field day (map parse (cells col)))
      \<and> (\<forall>n. n \<notin> {''year'', ''month'', ''day'', ''crash_date''} \<longrightarrow>
            lookup (date_features parse True df) n = lookup df n)
      \<and> (''year'' \<notin> set (columns df) \<and> ''month'' \<notin> set (columns df)
           \<and> ''day'' \<notin> set (columns df) \<longrightarrow>
            columns (date_features parse True df)
              = filter (\<lambda>n. n \<noteq> ''crash_date'') (columns df) @ [''year'', ''month'', ''day''])"
    if h: "lookup df ''crash_date'' = Some col"
    unfolding date_features_on[OF h]
    by (simp add: lookup_set_column lookup_drop_column columns_drop_column columns_set_column)
  have off: "\<not> use_date_features \<or> ''crash_date'' \<notin> set (columns df) \<longrightarrow>
        date_features parse use_date_features df = df"
    using date_features_off by blast
  show ?thesis
  proof (cases use_date_features)
    case True
    then show ?thesis using on off dt_field_numeric[of f dts] by simp
  next
    case False
    then show ?thesis using off dt_field_numeric[of f dts] by simp
  qed
qed

theorem date_expansion_witness:
  "date_features iso_date True accidents =
     [(''speed'', \<lparr>dtype_of = Int64, cells = [IntV 30, IntV 50]\<rparr>),
      (''weather'', \<lparr>dtype_of = Object, cells = [StrV ''rain'', StrV ''clear'']\<rparr>),
      (''year'', \<lparr>dtype_of = Float64, cells = [FloatV 2020, NaN]\<rparr>),
      (''month'', \<lparr>dtype_of = Float64, cells = [FloatV 1, NaN]\<rparr>),
      (''day'', \<lparr>dtype_of = Float64, cells = [FloatV 15, NaN]\<rparr>)]
   \<and> date_features iso_date False accidents = accidents"
  using date_expansion[of True accidents "\<lparr>dtype_of = Object, cells = [StrV ''2020-01-15'', NaN]\<rparr>"
      iso_date year "[]"]
    date_expansion[of False accidents "\<lparr>dtype_of = Object, cells = [StrV ''2020-01-15'', NaN]\<rparr>"
      iso_date year "[]"]
  by (simp add: accidents_def accidents_dated_def date_features_def lookup_def drop_column_def
      to_datetime_def dt_field_def iso_date_def digit_def columns_def)

subsection \<open>The fit-time schema and missing columns\<close>

lemma collect_Inr_map_fst:
  "collect (map (\<lambda>n. case g n of None \<Rightarrow> Inl (h n)
                      | Some c \<Rightarrow> (case f c of Inl e \<Rightarrow> Inl e | Inr s \<Rightarrow> Inr (n, s))) names) = Inr r
   \<Longrightarrow> map fst r = names"
  by (induction names arbitrary: r) (auto split: sum.splits option.splits)

lemma fit_columns_names: "fit_columns f names df = Inr r \<Longrightarrow> map fst r = names"
  unfolding fit_columns_def by (rule collect_Inr_map_fst)

lemma ct_fit_schema:
  assumes "ct_fit num_cols cat_cols df = Inr ct"
  shows "feature_names_in ct = num_cols @ cat_cols"
  using assms
  by (auto simp: ct_fit_def feature_names_in_def fit_columns_names split: sum.splits if_splits)

lemma pipe_fit_schema:
  assumes "pipe_fit grow g num_cols cat_cols df = Inr pipe"
  shows "feature_names_in (preprocess pipe) = num_cols @ cat_cols"
  using assms
  by (auto simp: pipe_fit_def ct_fit_schema split: sum.splits)

lemma ct_transform_missing:
  "missing_columns ct df \<noteq> [] \<Longrightarrow>
     ct_transform ct df = Inl (ValueError (''columns are missing: '' @ join (missing_columns ct df)))"
  by (simp add: ct_transform_def)

lemma missing_columns_iff:
  "missing_columns ct df \<noteq> [] \<longleftrightarrow> (\<exists>n \<in> set (feature_names_in ct). n \<notin> set (columns df))"
  by (auto simp: missing_columns_def filter_empty_conv)

lemma score_main_Inr:
  assumes "score_main model_uri data reg = Inr out"
  shows "\<exists>uri df pipe preds X.
           resolve_model_uri reg model_uri = Inr uri \<and> read_csv data = Inr df
         \<and> load_model reg uri = Inr pipe \<and> pipe_predict pipe df = Inr preds
         \<and> ct_transform (preprocess pipe) df = Inr X
         \<and> out = set_column ''anomaly_score''
                    \<lparr>dtype_of = Float64, cells = map FloatV (decision_function (model pipe) X)\<rparr>
                    (set_column ''anomaly_pred'' \<lparr>dtype_of = Int64, cells = map IntV preds\<rparr> df)"
  using assms by (auto simp: score_main_def Let_def split: sum.splits)

lemma score_main_missing:
  assumes "resolve_model_uri reg model_uri = Inr uri" and "load_model reg uri = Inr pipe"
    and "df \<noteq> []" and "missing_columns (preprocess pipe) df \<noteq> []"
  shows "score_main model_uri (Some df) reg
           = Inl (ValueError (''columns are missing: '' @ join (missing_columns (preprocess pipe) df)))"
proof -
  have "read_csv (Some df) = Inr df" using assms(3) by (cases df) (simp_all add: read_csv_def)
  then show ?thesis
    using assms(1,2,4) by (simp add: score_main_def pipe_predict_def ct_transform_missing)
qed


lemmas example_defs =
  example_registry_def example_pipe_def example_forest_def run_a_def
  score_main_def resolve_model_uri_def get_experiment_by_name_def search_runs_def
  model_uri_of_def read_csv_def load_model_def pipe_predict_def ct_transform_def
  missing_columns_def feature_names_in_def columns_def nrows_def block_def lookup_def
  num_transform_def cat_transform_def onehot_def impute_def iforest_predict_def
  decision_function_def

lemma score_seen:
  "score_main ''latest'' (Some batch_seen) example_registry =
     Inr [(''speed'', \<lparr>dtype_of = Int64, cells = [IntV 30, IntV 70]\<rparr>),
          (''weather'', \<lparr>dtype_of = Object, cells = [StrV ''rain'', StrV ''clear'']\<rparr>),
          (''anomaly_pred'', \<lparr>dtype_of = Int64, cells = [IntV 1, IntV (- 1)]\<rparr>),
          (''anomaly_score'', \<lparr>dtype_of = Float64, cells = [FloatV 0, FloatV (- (1 / 2))]\<rparr>)]"
  by (simp add: example_defs batch_seen_def numeral_2_eq_2)

lemma score_no_weather:
  "score_main ''latest'' (Some batch_no_weather) example_registry =
     Inl (ValueError ''columns are missing: weather'')"
  by (simp add: example_defs batch_no_weather_def)

text \<open>
  Claim C2. A scoring run that writes an output has found every column of the loaded
  pipeline's schema in the file it scored. Conversely, when the file lacks a column of
  the schema the run ends in an error and writes nothing: for a file that was read, the
  error is the schema error of the column transformer, raised by the first
  \<open>model.predict(df)\<close>, and it names the missing column. The schema of a fitted pipeline
  is the list of numeric columns followed by the list of categorical columns that the
  training script selected.
\<close>

theorem missing_column_rejected:
  "(score_main model_uri data reg = Inr out \<longrightarrow>
      (\<exists>uri df pipe. resolve_model_uri reg model_uri = Inr uri \<and> data = Some df
          \<and> load_model reg uri = Inr pipe
          \<and> set (feature_names_in (preprocess pipe)) \<subseteq> set (columns df)))
   \<and> (resolve_model_uri reg model_uri = Inr uri \<and> load_model reg uri = Inr pipe
        \<and> n \<in> set (feature_names_in (preprocess pipe)) \<and> n \<notin> set (columns df) \<longrightarrow>
          (\<exists>e. score_main model_uri (Some df) reg = Inl e)
          \<and> (df \<noteq> [] \<longrightarrow>
                score_main model_uri (Some df) reg
                  = Inl (ValueError (''columns are missing: ''
                                       @ join (missing_columns (preprocess pipe) df)))
                \<and> n \<in> set (missing_columns (preprocess pipe) df)))
   \<and> (pipe_fit grow g num_cols cat_cols df0 = Inr pipe \<longrightarrow>
         feature_names_in (preprocess pipe) = num_cols @ cat_cols)"
proof (intro conjI impI)
  assume "score_main model_uri data reg = Inr out"
  then obtain uri df pipe X where h: "resolve_model_uri reg model_uri = Inr uri"
      "read_csv data = Inr df" "load_model reg uri = Inr pipe"
      "ct_transform (preprocess pipe) df = Inr X"
    using score_main_Inr by blast
  have "data = Some df"
    using h(2) by (auto simp: read_csv_def split: option.splits list.splits)
  moreover have "missing_columns (preprocess pipe) df = []"
    using h(4) ct_transform_missing[of "preprocess pipe" df] by (cases "missing_columns (preprocess pipe) df = []") auto
  then have "set (feature_names_in (preprocess pipe)) \<subseteq> set (columns df)"
    using missing_columns_iff[of "preprocess pipe" df] by auto
  ultimately show "\<exists>uri df pipe. resolve_model_uri reg model_uri = Inr uri \<and> data = Some df
          \<and> load_model reg uri = Inr pipe
          \<and> set (feature_names_in (preprocess pipe)) \<subseteq> set (columns df)"
    using h(1,3) by blast
next
  assume a: "resolve_model_uri reg model_uri = Inr uri \<and> load_model reg uri = Inr pipe
        \<and> n \<in> set (feature_names_in (preprocess pipe)) \<and> n \<notin> set (columns df)"
  then have m: "missing_columns (preprocess pipe) df \<noteq> []"
    using missing_columns_iff[of "preprocess pipe" df] by blast
  show "\<exists>e. score_main model_uri (Some df) reg = Inl e"
  proof (cases "df = []")
    case True
    then show ?thesis using a by (simp add: score_main_def read_csv_def)
  next
    case False
    then show ?thesis using score_main_missing[of reg model_uri uri pipe df] a m by blast
  qed
next
  assume a: "resolve_model_uri reg model_uri = Inr uri \<and> load_model reg uri = Inr pipe
        \<and> n \<in> set (feature_names_in (preprocess pipe)) \<and> n \<notin> set (columns df)"
    and ne: "df \<noteq> []"
  then have m: "missing_columns (preprocess pipe) df \<noteq> []"
    using missing_columns_iff[of "preprocess pipe" df] by blast
  show "score_main model_uri (Some df) reg
          = Inl (ValueError (''columns are missing: '' @ join (missing_columns (preprocess pipe) df)))"
    using score_main_missing[of reg model_uri uri pipe df] a m ne by blast
next
  assume a: "resolve_model_uri reg model_uri = Inr uri \<and> load_model reg uri = Inr pipe
        \<and> n \<in> set (feature_names_in (preprocess pipe)) \<and> n \<notin> set (columns df)"
  then show "n \<in> set (missing_columns (preprocess pipe) df)"
    by (simp add: missing_columns_def)
next
  assume "pipe_fit grow g num_cols cat_cols df0 = Inr pipe"
  then show "feature_names_in (preprocess pipe) = num_cols @ cat_cols"
    by (rule pipe_fit_schema)
qed

theorem missing_column_rejected_witness:
  "score_main ''latest'' (Some batch_no_weather) example_registry
     = Inl (ValueError ''columns are missing: weather'')
   \<and> ''weather'' \<in> set (feature_names_in (preprocess example_pipe))
   \<and> ''weather'' \<notin> set (columns batch_no_weather)
   \<and> (\<exists>out. score_main ''latest'' (Some batch_seen) example_registry = Inr out)
   \<and> set (feature_names_in (preprocess example_pipe)) \<subseteq> set (columns batch_seen)"
  using missing_column_rejected[where model_uri = "''latest''" and data = "Some batch_seen"
      and reg = example_registry and uri = "''runs:/a/model''" and pipe = example_pipe
      and n = "''weather''" and df = batch_no_weather]
    score_seen score_no_weather
  by (simp add: feature_names_in_def example_pipe_def columns_def batch_no_weather_def batch_seen_def)

end
